theory Spec2Isabelle
  imports Complex_Main "HOL-Library.Sublist" "HOL-Library.Char_ord" "HOL-Library.List_Lexorder" "HOL-Library.Product_Lexorder"
begin

section \<open>JavaScript values used by the hub\<close>

text \<open>
  An optional property of a JavaScript object is an \<open>option\<close>: \<open>None\<close> is
  \<^verbatim>\<open>undefined\<close> (the property is absent). An object with string keys is an
  association list in insertion order (the order \<^verbatim>\<open>Object.entries\<close> yields).
  Strings are lists of characters; the hub only inspects ASCII letters of them.
\<close>

type_synonym 'a dict = "(string \<times> 'a) list"

text \<open>Truthiness of an optional string: \<^verbatim>\<open>undefined\<close> and \<^verbatim>\<open>''\<close> are falsy.\<close>

definition truthy_str :: "string option \<Rightarrow> bool" where
  "truthy_str s = (case s of None \<Rightarrow> False | Some v \<Rightarrow> v \<noteq> [])"

text \<open>Truthiness of an optional boolean: only \<^verbatim>\<open>true\<close> is truthy.\<close>

definition truthy_bool :: "bool option \<Rightarrow> bool" where
  "truthy_bool b = (b = Some True)"

text \<open>\<^verbatim>\<open>a || b\<close> on optional strings.\<close>

definition or_str :: "string option \<Rightarrow> string option \<Rightarrow> string option" where
  "or_str a b = (if truthy_str a then a else b)"

section \<open>Multi-tenant visibility filter\<close>

text \<open>
  \<^verbatim>\<open>MultiTenantService.filterByOwnership\<close>. Items are any objects with an optional
  \<^verbatim>\<open>owner\<close>; a user carries \<^verbatim>\<open>username\<close> and \<^verbatim>\<open>isAdmin\<close>.
\<close>

record ownable =
  owner :: "string option"

record user =
  username :: string
  isAdmin :: bool

definition filterByOwnership :: "'a ownable_scheme list \<Rightarrow> 'b user_scheme \<Rightarrow> 'a ownable_scheme list" where
  "filterByOwnership items u =
     (if isAdmin u then items
      else filter (\<lambda>item. \<not> truthy_str (owner item) \<or> owner item = Some (username u)) items)"

section \<open>Vector search over the tool embeddings\<close>

text \<open>
  The table \<^verbatim>\<open>vector_embeddings\<close>: one row per tool. \<open>rows\<close> below is the table in
  the order in which the database yields its rows; SQL fixes no order among rows that
  \<^verbatim>\<open>ORDER BY\<close> does not separate, so every such order is a possible input.
\<close>

type_synonym vec = "real list"

record embedding_row =
  col_tool_name :: string
  col_server_name :: string
  col_description :: "string option"
  col_input_schema :: string
  col_embedding :: vec

text \<open>
  The rows a query returns: \<^verbatim>\<open>tool_name, server_name, description, similarity\<close>, and
  with \<^verbatim>\<open>input_schema\<close> in \<^verbatim>\<open>performSearch\<close>.
\<close>

record found_row =
  tool_name :: string
  server_name :: string
  description :: "string option"
  similarity :: real

record raw_result = found_row +
  input_schema :: string

record search_options =
  threshold :: "real option"
  limit :: "nat option"

text \<open>
  Modelled from the spec: the cosine distance operator \<^verbatim>\<open><=>\<close> of the vector store, which
  is not code of the repository; the searches below take the operator as the parameter
  \<open>distance\<close>, and this definition is the instance used on concrete vectors. Division by a zero
  norm is not defined by the store; inputs below avoid the zero vector.
\<close>

definition dot :: "vec \<Rightarrow> vec \<Rightarrow> real" where
  "dot a b = sum_list (map2 (*) a b)"

definition cosine_distance :: "vec \<Rightarrow> vec \<Rightarrow> real" where
  "cosine_distance a b = 1 - dot a b / (sqrt (dot a a) * sqrt (dot b b))"

text \<open>The selected expression \<^verbatim>\<open>1 - (embedding <=> $1::vector)\<close>.\<close>

definition row_similarity :: "(vec \<Rightarrow> vec \<Rightarrow> real) \<Rightarrow> vec \<Rightarrow> embedding_row \<Rightarrow> real" where
  "row_similarity distance q r = 1 - distance (col_embedding r) q"

text \<open>
  \<^verbatim>\<open>ORDER BY similarity DESC\<close>: a stable sort of the rows, in the order they come in, by
  descending similarity.
\<close>

definition order_by_similarity ::
  "(vec \<Rightarrow> vec \<Rightarrow> real) \<Rightarrow> vec \<Rightarrow> embedding_row list \<Rightarrow> embedding_row list" where
  "order_by_similarity distance q rows = sort_key (\<lambda>r. - row_similarity distance q r) rows"

text \<open>
  \<^verbatim>\<open>WHERE 1 - (embedding <=> $1) > $2 ORDER BY similarity DESC LIMIT $3\<close>: the rows above
  the threshold, by descending similarity, cut to the limit.
\<close>

definition select_rows ::
  "(vec \<Rightarrow> vec \<Rightarrow> real) \<Rightarrow> embedding_row list \<Rightarrow> vec \<Rightarrow> real \<Rightarrow> nat \<Rightarrow> embedding_row list" where
  "select_rows distance rows q th n =
     take n (order_by_similarity distance q (filter (\<lambda>r. row_similarity distance q r > th) rows))"

definition found :: "(vec \<Rightarrow> vec \<Rightarrow> real) \<Rightarrow> vec \<Rightarrow> embedding_row \<Rightarrow> found_row" where
  "found distance q r =
     \<lparr>tool_name = col_tool_name r, server_name = col_server_name r,
      description = col_description r, similarity = row_similarity distance q r\<rparr>"

definition raw :: "(vec \<Rightarrow> vec \<Rightarrow> real) \<Rightarrow> vec \<Rightarrow> embedding_row \<Rightarrow> raw_result" where
  "raw distance q r =
     \<lparr>tool_name = col_tool_name r, server_name = col_server_name r,
      description = col_description r, similarity = row_similarity distance q r,
      input_schema = col_input_schema r\<rparr>"

text \<open>\<^verbatim>\<open>options?.threshold ?? 0.7\<close> and \<^verbatim>\<open>options?.limit ?? 10\<close>.\<close>

definition threshold_of :: "search_options option \<Rightarrow> real" where
  "threshold_of options =
     (case options of None \<Rightarrow> 7 / 10
      | Some opts \<Rightarrow> (case threshold opts of None \<Rightarrow> 7 / 10 | Some t \<Rightarrow> t))"

definition limit_of :: "search_options option \<Rightarrow> nat" where
  "limit_of options =
     (case options of None \<Rightarrow> 10
      | Some opts \<Rightarrow> (case limit opts of None \<Rightarrow> 10 | Some n \<Rightarrow> n))"

text \<open>
  A thrown JavaScript value: an \<^verbatim>\<open>Error\<close> with its message, or any other value with the
  string \<^verbatim>\<open>String(value)\<close> gives for it.
\<close>

datatype thrown = Error string | Thrown string

text \<open>
  \<^verbatim>\<open>VectorSearchService.searchToolsByVector\<close> (service layer): embeds the query with
  \<open>createEmbedding\<close> (the remote embedding call, which can fail) and runs the query.
\<close>

definition searchToolsByVector ::
  "(string \<Rightarrow> thrown + vec) \<Rightarrow> (vec \<Rightarrow> vec \<Rightarrow> real) \<Rightarrow> embedding_row list
     \<Rightarrow> string \<Rightarrow> search_options option \<Rightarrow> thrown + found_row list" where
  "searchToolsByVector createEmbedding distance rows query options =
     (case createEmbedding query of
        Inl e \<Rightarrow> Inl e
      | Inr queryVector \<Rightarrow>
          Inr (map (found distance queryVector)
            (select_rows distance rows queryVector (threshold_of options) (limit_of options))))"

text \<open>\<^verbatim>\<open>VectorSearchService.performSearch\<close> (smart routing): the same query, on a query vector.\<close>

definition performSearch ::
  "(vec \<Rightarrow> vec \<Rightarrow> real) \<Rightarrow> embedding_row list \<Rightarrow> vec \<Rightarrow> search_options option \<Rightarrow> raw_result list" where
  "performSearch distance rows queryVector options =
     map (raw distance queryVector)
       (select_rows distance rows queryVector (threshold_of options) (limit_of options))"

text \<open>
  \<^verbatim>\<open>processResults\<close> and \<^verbatim>\<open>searchTools\<close>: the results handed to the smart group's
  \<^verbatim>\<open>search_tools\<close>. The field \<^verbatim>\<open>relevance\<close>, computed by a helper the repository does not
  define, is left out.
\<close>

record search_result =
  tool :: string
  server :: string
  result_description :: "string option"
  confidence :: real
  schema :: string



text \<open>An embedding service that sends every query to the first axis of the plane (a fixture).\<close>

definition axis_embedder :: "string \<Rightarrow> thrown + vec" where
  "axis_embedder query = Inr [1, 0]"


section \<open>Settings and the state of the hub\<close>

text \<open>
  Values the hub stores and passes on without looking into them (groups, system
  configuration, further properties of a server) are JSON values.
\<close>

datatype json = JNull | JBool bool | JNum int | JStr string | JArr "json list" | JObj "(string \<times> json) list"

text \<open>
  \<^verbatim>\<open>settings.mcpServers[name].tools[toolName]\<close>: the per-tool overlay, with the properties
  \<^verbatim>\<open>enabled\<close> and \<^verbatim>\<open>description\<close>.
\<close>

record tool_config =
  tc_enabled :: "bool option"
  tc_description :: "string option"

text \<open>
  One entry of \<^verbatim>\<open>settings.mcpServers\<close>. \<open>server_type\<close> and \<open>server_enabled\<close> are the
  properties \<^verbatim>\<open>type\<close> and \<^verbatim>\<open>enabled\<close>; \<open>server_rest\<close> holds the properties the
  management server never reads (headers, owner, ...).
\<close>

record server_config =
  command :: "string option"
  args :: "string list option"
  env :: "string dict option"
  server_type :: "string option"
  url :: "string option"
  server_enabled :: "bool option"
  tools :: "tool_config dict option"
  server_rest :: "json dict"

record smart_routing =
  openaiApiKey :: "string option"
  smart_routing_rest :: "json dict"

record settings =
  mcpServers :: "server_config dict option"
  smartRouting :: "smart_routing option"
  groups :: "json option"
  settings_rest :: "json dict"

text \<open>Assignment \<^verbatim>\<open>obj[key] = value\<close>: in place for a key the object has, appended otherwise.\<close>

fun dict_set :: "string \<Rightarrow> 'a \<Rightarrow> 'a dict \<Rightarrow> 'a dict" where
  "dict_set k v [] = [(k, v)]"
| "dict_set k v ((k', v') # d) = (if k = k' then (k, v) # d else (k', v') # dict_set k v d)"

text \<open>Object spread \<^verbatim>\<open>{...a, ...b}\<close>.\<close>

definition spread :: "'a dict \<Rightarrow> 'a dict \<Rightarrow> 'a dict" where
  "spread a b = foldl (\<lambda>d (k, v). dict_set k v d) a b"

text \<open>\<^verbatim>\<open>settings.mcpServers || {}\<close>.\<close>

definition servers_of :: "settings \<Rightarrow> server_config dict" where
  "servers_of s = (case mcpServers s of None \<Rightarrow> [] | Some d \<Rightarrow> d)"

text \<open>\<^verbatim>\<open>settings.mcpServers?.[name]\<close>.\<close>

definition server_of :: "settings \<Rightarrow> string \<Rightarrow> server_config option" where
  "server_of s name = map_of (servers_of s) name"

text \<open>\<^verbatim>\<open>serverConfig.tools?.[toolName]\<close>.\<close>

definition tool_config_of :: "server_config \<Rightarrow> string \<Rightarrow> tool_config option" where
  "tool_config_of cfg toolName = (case tools cfg of None \<Rightarrow> None | Some d \<Rightarrow> map_of d toolName)"

text \<open>
  A property key or a template hole filled with an absent argument is the string
  \<^verbatim>\<open>undefined\<close>.
\<close>

definition js_string :: "string option \<Rightarrow> string" where
  "js_string s = (case s of None \<Rightarrow> ''undefined'' | Some v \<Rightarrow> v)"

definition quoted :: "string \<Rightarrow> string" where
  "quoted s = CHR 0x22 # s @ [CHR 0x22]"

text \<open>\<^verbatim>\<open>if (args.x !== undefined) config.x = args.x\<close>.\<close>

definition override :: "'a option \<Rightarrow> 'a option \<Rightarrow> 'a option" where
  "override new old = (case new of None \<Rightarrow> old | Some v \<Rightarrow> Some v)"

text \<open>
  The state the management server works on: the stored settings, and the trace of what it
  asked of its collaborators (a save with the settings saved, a re-creation of the
  upstream clients).
\<close>

datatype effect = SaveSettings settings | InitializeClients

record hub =
  stored :: settings
  effects :: "effect list"

text \<open>
  Modelled from the spec: \<^verbatim>\<open>loadSettings\<close> and \<^verbatim>\<open>saveSettings\<close> of the configuration
  module and \<^verbatim>\<open>initializeClientsFromSettings\<close> of the MCP service, which the management
  server imports but whose code is not in the repository. The Settings Store returns a
  snapshot and swaps in a new one; each save and each re-creation of the upstream clients
  is recorded in the trace.
\<close>

definition loadSettings :: "hub \<Rightarrow> settings" where
  "loadSettings h = stored h"

definition saveSettings :: "settings \<Rightarrow> hub \<Rightarrow> hub" where
  "saveSettings s h = h\<lparr>stored := s, effects := effects h @ [SaveSettings s]\<rparr>"

definition initializeClientsFromSettings :: "hub \<Rightarrow> hub" where
  "initializeClientsFromSettings h = h\<lparr>effects := effects h @ [InitializeClients]\<rparr>"

text \<open>
  An upstream tool as its server reports it, and the client of an upstream:
  \<^verbatim>\<open>client.listTools()\<close> returns the tools or throws.
\<close>

record mcp_tool =
  name :: string
  reported_description :: "string option"

record client =
  listTools :: "thrown + mcp_tool list"

section \<open>The hub management server\<close>

text \<open>The arguments of a tool call, each property optional.\<close>

record tool_args =
  arg_name :: "string option"
  arg_command :: "string option"
  arg_args :: "string list option"
  arg_env :: "string dict option"
  arg_type :: "string option"
  arg_url :: "string option"
  arg_enabled :: "bool option"
  arg_server :: "string option"
  arg_toolName :: "string option"
  arg_includeDisabled :: "bool option"
  arg_includeSecrets :: "bool option"
  arg_config :: "settings option"
  arg_validate :: "bool option"
  arg_merge :: "bool option"
  arg_rest :: "json dict"

text \<open>An element of the list \<^verbatim>\<open>list_all_tools\<close> returns.\<close>

record tool_entry =
  entry_server :: string
  entry_name :: string
  entry_description :: "string option"
  entry_enabled :: bool
  customDescription :: bool

text \<open>
  What a tool returns: \<^verbatim>\<open>{ success: true, message }\<close>, the tool list, a configuration,
  or the value of a tool whose body works on collaborators only.
\<close>

datatype tool_result =
    Success string
  | Tools "tool_entry list"
  | Configuration settings
  | Other json

text \<open>
  The collaborators of a call: the clients of the MCP service, and the outcome of the
  tools whose bodies only read from or delegate to services outside this development
  (the names of \<open>delegated_tools\<close> below).
\<close>

record collaborators =
  getClient :: "string \<Rightarrow> client option"
  delegated :: "string \<Rightarrow> tool_args \<Rightarrow> hub \<Rightarrow> (thrown + tool_result) \<times> hub"

subsection \<open>Server management\<close>

definition add_server :: "tool_args \<Rightarrow> hub \<Rightarrow> (thrown + tool_result) \<times> hub" where
  "add_server a h =
     (let settings = loadSettings h; key = js_string (arg_name a) in
      if server_of settings key \<noteq> None
      then (Inl (Error (''Server '' @ quoted key @ '' already exists'')), h)
      else
        let serverConfig =
          \<lparr>command = or_str (arg_command a) (Some []), args = arg_args a, env = arg_env a,
           server_type = or_str (arg_type a) (Some ''stdio''), url = arg_url a,
           server_enabled = Some (arg_enabled a \<noteq> Some False), tools = Some [],
           server_rest = []\<rparr>
        in
          if server_type serverConfig = Some ''stdio'' \<and> \<not> truthy_str (command serverConfig)
          then (Inl (Error ''Command is required for stdio servers''), h)
          else if (server_type serverConfig = Some ''sse''
                   \<or> server_type serverConfig = Some ''streamable-http'')
                  \<and> \<not> truthy_str (url serverConfig)
          then (Inl (Error ''URL is required for SSE/HTTP servers''), h)
          else
            let settings' = settings\<lparr>mcpServers := Some (dict_set key serverConfig (servers_of settings))\<rparr>
            in (Inr (Success (''Server '' @ quoted key @ '' added successfully'')),
                initializeClientsFromSettings (saveSettings settings' h)))"

definition update_server :: "tool_args \<Rightarrow> hub \<Rightarrow> (thrown + tool_result) \<times> hub" where
  "update_server a h =
     (let settings = loadSettings h; key = js_string (arg_name a) in
      case server_of settings key of
        None \<Rightarrow> (Inl (Error (''Server '' @ quoted key @ '' not found'')), h)
      | Some currentConfig \<Rightarrow>
          let updated = currentConfig
                \<lparr>command := override (arg_command a) (command currentConfig),
                 args := override (arg_args a) (args currentConfig),
                 env := override (arg_env a) (env currentConfig),
                 server_type := override (arg_type a) (server_type currentConfig),
                 url := override (arg_url a) (url currentConfig)\<rparr>;
              settings' = settings\<lparr>mcpServers := Some (dict_set key updated (servers_of settings))\<rparr>
          in (Inr (Success (''Server '' @ quoted key @ '' updated successfully'')),
              initializeClientsFromSettings (saveSettings settings' h)))"

subsection \<open>Tool management\<close>

text \<open>\<^verbatim>\<open>toolConfig?.enabled !== false\<close>.\<close>

definition tool_enabled :: "server_config \<Rightarrow> string \<Rightarrow> bool" where
  "tool_enabled cfg toolName =
     (case tool_config_of cfg toolName of None \<Rightarrow> True | Some tc \<Rightarrow> tc_enabled tc \<noteq> Some False)"

text \<open>\<^verbatim>\<open>toolConfig?.description\<close>.\<close>

definition description_override :: "server_config \<Rightarrow> string \<Rightarrow> string option" where
  "description_override cfg toolName =
     (case tool_config_of cfg toolName of None \<Rightarrow> None | Some tc \<Rightarrow> tc_description tc)"

text \<open>The object pushed for one tool of one server.\<close>

definition entry_of :: "string \<Rightarrow> server_config \<Rightarrow> mcp_tool \<Rightarrow> tool_entry" where
  "entry_of serverName serverConfig t =
     \<lparr>entry_server = serverName, entry_name = name t,
      entry_description = or_str (description_override serverConfig (name t)) (reported_description t),
      entry_enabled = tool_enabled serverConfig (name t),
      customDescription = truthy_str (description_override serverConfig (name t))\<rparr>"

text \<open>The inner loop over the tools a client reports.\<close>

fun tool_entries :: "tool_args \<Rightarrow> string \<Rightarrow> server_config \<Rightarrow> mcp_tool list \<Rightarrow> tool_entry list" where
  "tool_entries a serverName serverConfig [] = []"
| "tool_entries a serverName serverConfig (t # ts) =
     (if \<not> tool_enabled serverConfig (name t) \<and> \<not> truthy_bool (arg_includeDisabled a)
      then tool_entries a serverName serverConfig ts
      else entry_of serverName serverConfig t # tool_entries a serverName serverConfig ts)"

text \<open>
  The body of the outer loop for one server: the two \<^verbatim>\<open>continue\<close> guards, the client
  lookup, and the \<^verbatim>\<open>try\<close> around \<^verbatim>\<open>listTools\<close> whose \<^verbatim>\<open>catch\<close> only logs.
\<close>

definition server_entries ::
  "(string \<Rightarrow> client option) \<Rightarrow> tool_args \<Rightarrow> string \<Rightarrow> server_config \<Rightarrow> tool_entry list" where
  "server_entries clients a serverName serverConfig =
     (if truthy_str (arg_server a) \<and> Some serverName \<noteq> arg_server a then []
      else if \<not> truthy_bool (server_enabled serverConfig) \<and> \<not> truthy_bool (arg_includeDisabled a) then []
      else case clients serverName of
             None \<Rightarrow> []
           | Some c \<Rightarrow>
               (case listTools c of
                  Inl e \<Rightarrow> []
                | Inr ts \<Rightarrow> tool_entries a serverName serverConfig ts))"

fun all_entries ::
  "(string \<Rightarrow> client option) \<Rightarrow> tool_args \<Rightarrow> server_config dict \<Rightarrow> tool_entry list" where
  "all_entries clients a [] = []"
| "all_entries clients a ((serverName, serverConfig) # rest) =
     server_entries clients a serverName serverConfig @ all_entries clients a rest"

definition list_all_tools :: "(string \<Rightarrow> client option) \<Rightarrow> tool_args \<Rightarrow> hub \<Rightarrow> tool_entry list" where
  "list_all_tools clients a h = all_entries clients a (servers_of (loadSettings h))"

definition toggle_tool :: "tool_args \<Rightarrow> hub \<Rightarrow> (thrown + tool_result) \<times> hub" where
  "toggle_tool a h =
     (let settings = loadSettings h; key = js_string (arg_server a);
          toolName = js_string (arg_toolName a) in
      case server_of settings key of
        None \<Rightarrow> (Inl (Error (''Server '' @ quoted key @ '' not found'')), h)
      | Some serverConfig \<Rightarrow>
          let toolsMap = (case tools serverConfig of None \<Rightarrow> [] | Some d \<Rightarrow> d);
              toolConfig = (case map_of toolsMap toolName of
                              None \<Rightarrow> \<lparr>tc_enabled = Some True, tc_description = None\<rparr>
                            | Some tc \<Rightarrow> tc);
              toolsMap' = dict_set toolName (toolConfig\<lparr>tc_enabled := arg_enabled a\<rparr>) toolsMap;
              settings' = settings\<lparr>mcpServers :=
                Some (dict_set key (serverConfig\<lparr>tools := Some toolsMap'\<rparr>) (servers_of settings))\<rparr>
          in (Inr (Success (''Tool '' @ quoted toolName
                @ (if truthy_bool (arg_enabled a) then '' enabled'' else '' disabled'')
                @ '' successfully'')),
              saveSettings settings' h))"

subsection \<open>Configuration management\<close>

text \<open>
  \<^verbatim>\<open>key.toLowerCase()\<close> on the ASCII letters, and \<^verbatim>\<open>s.includes(sub)\<close>: \<open>sub\<close> occurs
  in \<open>s\<close> as a contiguous run.
\<close>

definition lower_char :: "char \<Rightarrow> char" where
  "lower_char c =
     (case map_of (zip ''ABCDEFGHIJKLMNOPQRSTUVWXYZ'' ''abcdefghijklmnopqrstuvwxyz'') c of
        None \<Rightarrow> c | Some l \<Rightarrow> l)"

definition toLowerCase :: "string \<Rightarrow> string" where
  "toLowerCase s = map lower_char s"

fun str_includes :: "string \<Rightarrow> string \<Rightarrow> bool" where
  "str_includes [] sub = (sub = [])"
| "str_includes (c # s) sub = (prefix sub (c # s) \<or> str_includes s sub)"

definition sensitive :: "string \<Rightarrow> bool" where
  "sensitive key =
     (str_includes (toLowerCase key) ''key''
      \<or> str_includes (toLowerCase key) ''secret''
      \<or> str_includes (toLowerCase key) ''password'')"

definition REDACTED :: string where
  "REDACTED = ''***REDACTED***''"

text \<open>The loop over \<^verbatim>\<open>Object.keys(server.env)\<close>.\<close>

definition redact_env :: "string dict \<Rightarrow> string dict" where
  "redact_env e = map (\<lambda>(key, v). (key, if sensitive key then REDACTED else v)) e"

definition redact_server :: "server_config \<Rightarrow> server_config" where
  "redact_server cfg = (case env cfg of None \<Rightarrow> cfg | Some e \<Rightarrow> cfg\<lparr>env := Some (redact_env e)\<rparr>)"

definition redact_smart_routing :: "smart_routing option \<Rightarrow> smart_routing option" where
  "redact_smart_routing sr =
     (case sr of
        None \<Rightarrow> None
      | Some r \<Rightarrow> if truthy_str (openaiApiKey r) then Some (r\<lparr>openaiApiKey := Some REDACTED\<rparr>)
                  else Some r)"

text \<open>
  The redacted copy: \<^verbatim>\<open>JSON.parse(JSON.stringify(settings))\<close> is a copy of the settings,
  whose API key and environment values are then overwritten.
\<close>

definition redact :: "settings \<Rightarrow> settings" where
  "redact s =
     s\<lparr>smartRouting := redact_smart_routing (smartRouting s),
       mcpServers := map_option (map (\<lambda>(serverName, cfg). (serverName, redact_server cfg))) (mcpServers s)\<rparr>"

definition export_configuration :: "tool_args \<Rightarrow> hub \<Rightarrow> (thrown + tool_result) \<times> hub" where
  "export_configuration a h =
     (let settings = loadSettings h in
      if \<not> truthy_bool (arg_includeSecrets a) then (Inr (Configuration (redact settings)), h)
      else (Inr (Configuration settings), h))"

text \<open>The validation loop of \<^verbatim>\<open>import_configuration\<close>: the first offending server throws.\<close>

fun validate_servers :: "server_config dict \<Rightarrow> thrown option" where
  "validate_servers [] = None"
| "validate_servers ((serverName, serverConfig) # rest) =
     (if server_type serverConfig = Some ''stdio'' \<and> \<not> truthy_str (command serverConfig)
      then Some (Error (''Server '' @ quoted serverName @ '' requires a command for stdio type''))
      else if (server_type serverConfig = Some ''sse''
               \<or> server_type serverConfig = Some ''streamable-http'')
              \<and> \<not> truthy_str (url serverConfig)
      then Some (Error (''Server '' @ quoted serverName @ '' requires a URL for ''
                        @ js_string (server_type serverConfig) @ '' type''))
      else validate_servers rest)"

text \<open>\<^verbatim>\<open>{ ...currentSettings, ...config, mcpServers: { ...current, ...imported } }\<close>.\<close>

definition merge_settings :: "settings \<Rightarrow> settings \<Rightarrow> settings" where
  "merge_settings currentSettings config =
     \<lparr>mcpServers = Some (spread (servers_of currentSettings) (servers_of config)),
      smartRouting = override (smartRouting config) (smartRouting currentSettings),
      groups = override (groups config) (groups currentSettings),
      settings_rest = spread (settings_rest currentSettings) (settings_rest config)\<rparr>"

text \<open>\<^verbatim>\<open>import_configuration\<close> for a call that carries a configuration.\<close>

definition import_configuration :: "settings \<Rightarrow> tool_args \<Rightarrow> hub \<Rightarrow> (thrown + tool_result) \<times> hub" where
  "import_configuration config a h =
     (let rejected =
        (if truthy_bool (arg_validate a)
         then (if mcpServers config = None \<and> groups config = None
               then Some (Error ''Configuration must contain mcpServers or groups'')
               else validate_servers (servers_of config))
         else None)
      in case rejected of
           Some e \<Rightarrow> (Inl e, h)
         | None \<Rightarrow>
             if truthy_bool (arg_merge a)
             then (Inr (Success ''Configuration merged successfully''),
                   saveSettings (merge_settings (loadSettings h) config) h)
             else (Inr (Success ''Configuration imported successfully''), saveSettings config h))"

subsection \<open>Dispatch\<close>

text \<open>The cases of the \<^verbatim>\<open>switch\<close> whose bodies work on collaborators only.\<close>

definition delegated_tools :: "string list" where
  "delegated_tools =
     [''list_servers'', ''delete_server'', ''toggle_server'', ''test_server'',
      ''list_groups'', ''create_group'', ''update_group'', ''delete_group'',
      ''get_system_config'', ''update_system_config'', ''get_system_health'', ''restart_hub'',
      ''get_logs'', ''get_connection_status'']"

text \<open>
  \<^verbatim>\<open>executeTool\<close>. A call of \<^verbatim>\<open>import_configuration\<close> without a configuration throws a
  \<^verbatim>\<open>TypeError\<close> where it reads \<^verbatim>\<open>args.config.mcpServers\<close> (under \<^verbatim>\<open>validate\<close> or
  \<^verbatim>\<open>merge\<close>); otherwise it hands \<^verbatim>\<open>undefined\<close> to \<^verbatim>\<open>saveSettings\<close>, whose outcome
  the collaborators give.
\<close>

definition executeTool ::
  "collaborators \<Rightarrow> string \<Rightarrow> tool_args \<Rightarrow> hub \<Rightarrow> (thrown + tool_result) \<times> hub" where
  "executeTool c tname a h =
     (if tname = ''add_server'' then add_server a h
      else if tname = ''update_server'' then update_server a h
      else if tname = ''list_all_tools'' then (Inr (Tools (list_all_tools (getClient c) a h)), h)
      else if tname = ''toggle_tool'' then toggle_tool a h
      else if tname = ''export_configuration'' then export_configuration a h
      else if tname = ''import_configuration'' then
        (case arg_config a of
           Some config \<Rightarrow> import_configuration config a h
         | None \<Rightarrow>
             if truthy_bool (arg_validate a) \<or> truthy_bool (arg_merge a)
             then (Inl (Error ''Cannot read properties of undefined (reading 'mcpServers')''), h)
             else delegated c tname a h)
      else if tname \<in> set delegated_tools then delegated c tname a h
      else (Inl (Error (''Unknown tool: '' @ tname)), h))"

text \<open>
  \<^verbatim>\<open>callTool\<close>: the \<^verbatim>\<open>try\<close> block runs the tool and renders its result (a string as it
  is, anything else through \<^verbatim>\<open>JSON.stringify\<close>, which may throw); the \<^verbatim>\<open>catch\<close> block
  turns whatever was thrown into a text block.
\<close>

record content_block =
  content_type :: string
  content_text :: string

record call_result =
  content :: "content_block list"

definition error_message :: "thrown \<Rightarrow> string" where
  "error_message e = (case e of Error message \<Rightarrow> message | Thrown v \<Rightarrow> v)"

definition render :: "(tool_result \<Rightarrow> thrown + string) \<Rightarrow> tool_result \<Rightarrow> thrown + string" where
  "render stringify result = (case result of Other (JStr s) \<Rightarrow> Inr s | _ \<Rightarrow> stringify result)"

definition try_callTool ::
  "collaborators \<Rightarrow> (tool_result \<Rightarrow> thrown + string) \<Rightarrow> string \<Rightarrow> tool_args \<Rightarrow> hub
     \<Rightarrow> (thrown + call_result) \<times> hub" where
  "try_callTool c stringify tname a h =
     (case executeTool c tname a h of
        (Inl e, h') \<Rightarrow> (Inl e, h')
      | (Inr result, h') \<Rightarrow>
          (case render stringify result of
             Inl e \<Rightarrow> (Inl e, h')
           | Inr s \<Rightarrow> (Inr \<lparr>content = [\<lparr>content_type = ''text'', content_text = s\<rparr>]\<rparr>, h')))"

definition callTool ::
  "collaborators \<Rightarrow> (tool_result \<Rightarrow> thrown + string) \<Rightarrow> string \<Rightarrow> tool_args \<Rightarrow> hub
     \<Rightarrow> (thrown + call_result) \<times> hub" where
  "callTool c stringify tname a h =
     (case try_callTool c stringify tname a h of
        (Inr r, h') \<Rightarrow> (Inr r, h')
      | (Inl error, h') \<Rightarrow>
          (Inr \<lparr>content = [\<lparr>content_type = ''text'',
                             content_text = ''Error: '' @ error_message error\<rparr>]\<rparr>, h'))"

text \<open>The names of the tools the server lists (\<^verbatim>\<open>this.tools\<close>), one per case of the switch.\<close>

definition tool_set :: "string list" where
  "tool_set =
     [''list_servers'', ''add_server'', ''update_server'', ''delete_server'', ''toggle_server'',
      ''test_server'', ''list_groups'', ''create_group'', ''update_group'', ''delete_group'',
      ''get_system_config'', ''update_system_config'', ''get_system_health'', ''restart_hub'',
      ''list_all_tools'', ''toggle_tool'', ''get_logs'', ''get_connection_status'',
      ''export_configuration'', ''import_configuration'']"

subsection \<open>What the specification means by states that differ only in secrets\<close>

text \<open>
  Two settings that agree on everything but the values of environment variables with a
  sensitive name and the value of a set (non-empty) \<^verbatim>\<open>openaiApiKey\<close>.
\<close>

definition same_env :: "string dict \<Rightarrow> string dict \<Rightarrow> bool" where
  "same_env e1 e2 = list_all2 (\<lambda>(k1, v1) (k2, v2). k1 = k2 \<and> (sensitive k1 \<or> v1 = v2)) e1 e2"

definition same_server :: "server_config \<Rightarrow> server_config \<Rightarrow> bool" where
  "same_server c1 c2 = (c1\<lparr>env := None\<rparr> = c2\<lparr>env := None\<rparr> \<and> rel_option same_env (env c1) (env c2))"

definition same_smart_routing :: "smart_routing \<Rightarrow> smart_routing \<Rightarrow> bool" where
  "same_smart_routing r1 r2 =
     (smart_routing_rest r1 = smart_routing_rest r2
      \<and> (openaiApiKey r1 = openaiApiKey r2
         \<or> (truthy_str (openaiApiKey r1) \<and> truthy_str (openaiApiKey r2))))"

definition same_but_secrets :: "settings \<Rightarrow> settings \<Rightarrow> bool" where
  "same_but_secrets s1 s2 =
     (groups s1 = groups s2 \<and> settings_rest s1 = settings_rest s2
      \<and> rel_option same_smart_routing (smartRouting s1) (smartRouting s2)
      \<and> rel_option (list_all2 (\<lambda>(n1, c1) (n2, c2). n1 = n2 \<and> same_server c1 c2))
           (mcpServers s1) (mcpServers s2))"

section \<open>Upserts into the vector index\<close>







section \<open>Inputs used in the examples\<close>

definition no_args :: tool_args where
  "no_args =
     \<lparr>arg_name = None, arg_command = None, arg_args = None, arg_env = None, arg_type = None,
      arg_url = None, arg_enabled = None, arg_server = None, arg_toolName = None,
      arg_includeDisabled = None, arg_includeSecrets = None, arg_config = None,
      arg_validate = None, arg_merge = None, arg_rest = []\<rparr>"

definition empty_settings :: settings where
  "empty_settings = \<lparr>mcpServers = None, smartRouting = None, groups = None, settings_rest = []\<rparr>"

definition stdio_server :: "string option \<Rightarrow> bool option \<Rightarrow> tool_config dict option \<Rightarrow> server_config" where
  "stdio_server cmd on overlay =
     \<lparr>command = cmd, args = None, env = None, server_type = Some ''stdio'', url = None,
      server_enabled = on, tools = overlay, server_rest = []\<rparr>"

definition hub_of :: "server_config dict \<Rightarrow> hub" where
  "hub_of servers = \<lparr>stored = empty_settings\<lparr>mcpServers := Some servers\<rparr>, effects = []\<rparr>"

text \<open>
  Collaborators with one connected upstream, \<open>echo\<close>, that reports the single tool
  \<open>echo\<close>; every delegated tool fails.
\<close>

definition echo_clients :: "string \<Rightarrow> client option" where
  "echo_clients serverName =
     (if serverName = ''echo''
      then Some \<lparr>listTools = Inr [\<lparr>name = ''echo'', reported_description = Some ''echoes input''\<rparr>]\<rparr>
      else None)"

definition echo_collaborators :: collaborators where
  "echo_collaborators =
     \<lparr>getClient = echo_clients,
      delegated = (\<lambda>tname a h. (Inl (Error ''service unavailable''), h))\<rparr>"

text \<open>A \<^verbatim>\<open>JSON.stringify\<close> that throws on every value, as it does on a cyclic one.\<close>

definition circular_stringify :: "tool_result \<Rightarrow> thrown + string" where
  "circular_stringify result = Inl (Error ''Converting circular structure to JSON'')"




section \<open>Theorems\<close>

subsection \<open>Dictionaries\<close>



subsection \<open>Vector search\<close>

lemma filter_take_sorted:
  fixes f :: "'a \<Rightarrow> real"
  assumes "sorted (map f xs)" and "\<And>a b. f a \<le> f b \<Longrightarrow> P b \<Longrightarrow> P a"
  shows "filter P (take k xs) = take k (filter P xs)"
  using assms(1)
proof (induction xs arbitrary: k)
  case Nil
  then show ?case by simp
next
  case (Cons x xs)
  show ?case
  proof (cases k)
    case 0
    then show ?thesis by simp
  next
    case (Suc j)
    show ?thesis
    proof (cases "P x")
      case True
      with Cons Suc show ?thesis by simp
    next
      case False
      have "\<not> P y" if "y \<in> set xs" for y
        using Cons.prems that assms(2)[of x y] False by auto
      then have "filter P xs = []" and "filter P (take j xs) = []"
        by (auto simp: filter_empty_conv dest: in_set_takeD)
      with False Suc show ?thesis by simp
    qed
  qed
qed

lemma select_rows_top:
  assumes "r \<in> set (take k (order_by_similarity distance q rows))"
    and "row_similarity distance q r > th"
  shows "r \<in> set (select_rows distance rows q th k)"
proof -
  let ?f = "\<lambda>r. - row_similarity distance q r"
  let ?P = "\<lambda>r. row_similarity distance q r > th"
  have "filter ?P (take k (sort_key ?f rows)) = take k (filter ?P (sort_key ?f rows))"
    by (rule filter_take_sorted[where f = ?f]) auto
  also have "\<dots> = take k (sort_key ?f (filter ?P rows))"
    by (simp add: filter_sort)
  finally have "set (select_rows distance rows q th k) = set (filter ?P (take k (sort_key ?f rows)))"
    by (simp add: select_rows_def order_by_similarity_def)
  with assms show ?thesis by (simp add: order_by_similarity_def)
qed

lemma select_rows_above:
  "r \<in> set (select_rows distance rows q th k) \<Longrightarrow> row_similarity distance q r > th"
  by (auto simp: select_rows_def order_by_similarity_def dest!: in_set_takeD)



lemma cosine_distance_same_axis: "cosine_distance [1, 0] [1, 0] = 0"
  by (simp add: cosine_distance_def dot_def)

lemma cosine_distance_other_axis: "cosine_distance [0, 1] [1, 0] = 1"
  by (simp add: cosine_distance_def dot_def)

text \<open>
  Claim C1 as stated fails at the threshold itself: the query keeps a row only when its
  similarity is strictly greater than the threshold. A single stored row whose embedding
  is the query vector has cosine similarity exactly 1 and is the top row, yet a search with
  threshold 1.0 returns nothing.
\<close>

theorem C1_threshold_one_counterexample:
  "row_similarity cosine_distance [1, 0]
      \<lparr>col_tool_name = ''weather'', col_server_name = ''A'',
       col_description = Some ''Get current weather for a city'', col_input_schema = ''{}'',
       col_embedding = [1, 0]\<rparr> = 1
   \<and> \<lparr>col_tool_name = ''weather'', col_server_name = ''A'',
       col_description = Some ''Get current weather for a city'', col_input_schema = ''{}'',
       col_embedding = [1, 0]\<rparr>
      \<in> set (take 10 (order_by_similarity cosine_distance [1, 0]
          [\<lparr>col_tool_name = ''weather'', col_server_name = ''A'',
            col_description = Some ''Get current weather for a city'', col_input_schema = ''{}'',
            col_embedding = [1, 0]\<rparr>]))
   \<and> performSearch cosine_distance
        [\<lparr>col_tool_name = ''weather'', col_server_name = ''A'',
          col_description = Some ''Get current weather for a city'', col_input_schema = ''{}'',
          col_embedding = [1, 0]\<rparr>]
        [1, 0] (Some \<lparr>threshold = Some 1, limit = Some 10\<rparr>) = []
   \<and> searchToolsByVector axis_embedder cosine_distance
        [\<lparr>col_tool_name = ''weather'', col_server_name = ''A'',
          col_description = Some ''Get current weather for a city'', col_input_schema = ''{}'',
          col_embedding = [1, 0]\<rparr>]
        ''weather in Paris'' (Some \<lparr>threshold = Some 1, limit = Some 10\<rparr>) = Inr []"
  by (simp add: row_similarity_def cosine_distance_same_axis order_by_similarity_def
      performSearch_def select_rows_def searchToolsByVector_def axis_embedder_def
      threshold_of_def limit_of_def)

text \<open>
  Claim C1, amended: a row is kept in the result of a vector search whenever it ranks
  within the top \<open>k\<close> by cosine similarity to the query vector and its similarity is
  strictly greater than the threshold; every returned row has a similarity strictly
  greater than the threshold, so a search with threshold 1.0 returns no row of similarity
  1 or less.
\<close>

theorem C1_search_keeps_top_k_above_threshold:
  assumes "r \<in> set (take k (order_by_similarity distance q rows))"
    and "row_similarity distance q r > th"
  shows "raw distance q r
           \<in> set (performSearch distance rows q (Some \<lparr>threshold = Some th, limit = Some k\<rparr>))
       \<and> (createEmbedding query = Inr q \<longrightarrow>
            (\<exists>res. searchToolsByVector createEmbedding distance rows query
                      (Some \<lparr>threshold = Some th, limit = Some k\<rparr>) = Inr res
                  \<and> found distance q r \<in> set res))
       \<and> (\<forall>x \<in> set (performSearch distance rows q (Some \<lparr>threshold = Some th, limit = Some k\<rparr>)).
            similarity x > th)"
proof -
  have kept: "r \<in> set (select_rows distance rows q th k)"
    using assms by (rule select_rows_top)
  have "raw distance q r
          \<in> set (performSearch distance rows q (Some \<lparr>threshold = Some th, limit = Some k\<rparr>))"
    using kept by (simp add: performSearch_def threshold_of_def limit_of_def)
  moreover have "createEmbedding query = Inr q \<longrightarrow>
            (\<exists>res. searchToolsByVector createEmbedding distance rows query
                      (Some \<lparr>threshold = Some th, limit = Some k\<rparr>) = Inr res
                  \<and> found distance q r \<in> set res)"
    using kept by (simp add: searchToolsByVector_def threshold_of_def limit_of_def)
  moreover have "\<forall>x \<in> set (performSearch distance rows q (Some \<lparr>threshold = Some th, limit = Some k\<rparr>)).
            similarity x > th"
    by (auto simp: performSearch_def threshold_of_def limit_of_def raw_def dest: select_rows_above)
  ultimately show ?thesis by blast
qed

theorem C1_search_keeps_top_k_above_threshold_witness:
  "\<lparr>col_tool_name = ''weather'', col_server_name = ''A'', col_description = None,
     col_input_schema = ''{}'', col_embedding = [1, 0]\<rparr>
     \<in> set (take 1 (order_by_similarity cosine_distance [1, 0]
         [\<lparr>col_tool_name = ''mail'', col_server_name = ''B'', col_description = None,
           col_input_schema = ''{}'', col_embedding = [0, 1]\<rparr>,
          \<lparr>col_tool_name = ''weather'', col_server_name = ''A'', col_description = None,
           col_input_schema = ''{}'', col_embedding = [1, 0]\<rparr>]))
   \<and> row_similarity cosine_distance [1, 0]
        \<lparr>col_tool_name = ''weather'', col_server_name = ''A'', col_description = None,
         col_input_schema = ''{}'', col_embedding = [1, 0]\<rparr> > 7 / 10
   \<and> \<lparr>tool_name = ''weather'', server_name = ''A'', description = None, similarity = 1,
       input_schema = ''{}''\<rparr>
     \<in> set (performSearch cosine_distance
         [\<lparr>col_tool_name = ''mail'', col_server_name = ''B'', col_description = None,
           col_input_schema = ''{}'', col_embedding = [0, 1]\<rparr>,
          \<lparr>col_tool_name = ''weather'', col_server_name = ''A'', col_description = None,
           col_input_schema = ''{}'', col_embedding = [1, 0]\<rparr>]
         [1, 0] (Some \<lparr>threshold = Some (7 / 10), limit = Some 1\<rparr>))"
proof -
  let ?mail = "\<lparr>col_tool_name = ''mail'', col_server_name = ''B'', col_description = None,
           col_input_schema = ''{}'', col_embedding = [0, 1]\<rparr>"
  let ?weather = "\<lparr>col_tool_name = ''weather'', col_server_name = ''A'', col_description = None,
           col_input_schema = ''{}'', col_embedding = [1, 0]\<rparr>"
  have top: "?weather \<in> set (take 1 (order_by_similarity cosine_distance [1, 0] [?mail, ?weather]))"
    by (simp add: order_by_similarity_def row_similarity_def cosine_distance_same_axis
        cosine_distance_other_axis)
  have above: "row_similarity cosine_distance [1, 0] ?weather > 7 / 10"
    by (simp add: row_similarity_def cosine_distance_same_axis)
  from C1_search_keeps_top_k_above_threshold [OF top above]
  have "raw cosine_distance [1, 0] ?weather
          \<in> set (performSearch cosine_distance [?mail, ?weather] [1, 0]
                (Some \<lparr>threshold = Some (7 / 10), limit = Some 1\<rparr>))"
    by blast
  then show ?thesis
    using top above by (simp add: raw_def row_similarity_def cosine_distance_same_axis)
qed




subsection \<open>The management server: listing tools\<close>

lemma tool_entries_filter:
  "tool_entries a s cfg ts =
     map (entry_of s cfg)
       (filter (\<lambda>t. tool_enabled cfg (name t) \<or> truthy_bool (arg_includeDisabled a)) ts)"
  by (induction ts) auto

lemma all_entries_concat:
  "all_entries clients a servers = concat (map (\<lambda>(s, cfg). server_entries clients a s cfg) servers)"
  by (induction servers) auto

lemma in_server_entries:
  "e \<in> set (server_entries clients a s cfg) \<longleftrightarrow>
     (\<not> truthy_str (arg_server a) \<or> arg_server a = Some s)
     \<and> (truthy_bool (server_enabled cfg) \<or> truthy_bool (arg_includeDisabled a))
     \<and> (\<exists>cl ts t. clients s = Some cl \<and> listTools cl = Inr ts \<and> t \<in> set ts
           \<and> (tool_enabled cfg (name t) \<or> truthy_bool (arg_includeDisabled a))
           \<and> e = entry_of s cfg t)"
proof (cases "clients s")
  case None
  then show ?thesis by (simp add: server_entries_def)
next
  case (Some cl)
  then show ?thesis
    by (cases "listTools cl") (auto simp: server_entries_def tool_entries_filter)
qed

lemma in_list_all_tools:
  "e \<in> set (list_all_tools clients a h) \<longleftrightarrow>
     (\<exists>s cfg cl ts t. (s, cfg) \<in> set (servers_of (stored h))
        \<and> (\<not> truthy_str (arg_server a) \<or> arg_server a = Some s)
        \<and> (truthy_bool (server_enabled cfg) \<or> truthy_bool (arg_includeDisabled a))
        \<and> clients s = Some cl \<and> listTools cl = Inr ts \<and> t \<in> set ts
        \<and> (tool_enabled cfg (name t) \<or> truthy_bool (arg_includeDisabled a))
        \<and> e = entry_of s cfg t)"
  unfolding list_all_tools_def all_entries_concat loadSettings_def
  by (simp add: in_server_entries) blast

lemma tool_enabled_iff:
  "tool_enabled cfg t \<longleftrightarrow>
     (case tool_config_of cfg t of None \<Rightarrow> None | Some tc \<Rightarrow> tc_enabled tc) \<in> {None, Some True}"
proof (cases "tool_config_of cfg t")
  case None
  then show ?thesis by (simp add: tool_enabled_def)
next
  case (Some tc)
  then show ?thesis by (cases "tc_enabled tc") (auto simp: tool_enabled_def)
qed

text \<open>
  Claim C3 as stated fails for the tools of a server that \<^verbatim>\<open>list_all_tools\<close> skips: the
  loop leaves out a disabled server before it looks at any tool. The connected upstream
  \<open>echo\<close> is disabled in the settings; its tool \<open>echo\<close> has no per-tool setting, so it is
  enabled, yet the list is empty.
\<close>

theorem C3_disabled_server_counterexample:
  "executeTool echo_collaborators ''list_all_tools'' no_args
     (hub_of [(''echo'', stdio_server (Some ''/bin/cat'') (Some False) None)])
   = (Inr (Tools []), hub_of [(''echo'', stdio_server (Some ''/bin/cat'') (Some False) None)])
  \<and> tool_enabled (stdio_server (Some ''/bin/cat'') (Some False) None) ''echo''
  \<and> getClient echo_collaborators ''echo''
      = Some \<lparr>listTools = Inr [\<lparr>name = ''echo'', reported_description = Some ''echoes input''\<rparr>]\<rparr>"
  by (simp add: executeTool_def list_all_tools_def loadSettings_def hub_of_def servers_of_def
      empty_settings_def server_entries_def no_args_def truthy_str_def truthy_bool_def
      stdio_server_def tool_enabled_def tool_config_of_def echo_collaborators_def echo_clients_def)

text \<open>
  Claim C3, amended: a tool is treated as enabled if and only if its per-tool setting
  \<^verbatim>\<open>enabled\<close> is absent or true; on settings in which every server's own
  \<^verbatim>\<open>enabled\<close> is set, \<^verbatim>\<open>list_all_tools\<close> called without \<^verbatim>\<open>includeDisabled\<close>
  returns exactly the entries of the enabled tools that are reported by the servers it
  visits: those that match the \<^verbatim>\<open>server\<close> argument when one is given, that are not
  disabled, and whose client exists and answers \<^verbatim>\<open>listTools\<close>.
\<close>

theorem C3_enabled_tools_listed:
  "(tool_enabled cfg toolName \<longleftrightarrow>
      (case tool_config_of cfg toolName of None \<Rightarrow> None | Some tc \<Rightarrow> tc_enabled tc) \<in> {None, Some True})
   \<and> (\<not> truthy_bool (arg_includeDisabled a)
        \<and> (\<forall>(s, cfg) \<in> set (servers_of (stored h)). server_enabled cfg \<noteq> None) \<longrightarrow>
        (e \<in> set (list_all_tools clients a h) \<longleftrightarrow>
          (\<exists>s cfg cl ts t. (s, cfg) \<in> set (servers_of (stored h))
             \<and> (\<not> truthy_str (arg_server a) \<or> arg_server a = Some s)
             \<and> server_enabled cfg \<noteq> Some False
             \<and> clients s = Some cl \<and> listTools cl = Inr ts \<and> t \<in> set ts
             \<and> tool_enabled cfg (name t)
             \<and> e = entry_of s cfg t)))"
proof (intro conjI impI)
  show "tool_enabled cfg toolName \<longleftrightarrow>
      (case tool_config_of cfg toolName of None \<Rightarrow> None | Some tc \<Rightarrow> tc_enabled tc) \<in> {None, Some True}"
    by (rule tool_enabled_iff)
next
  assume hyp: "\<not> truthy_bool (arg_includeDisabled a)
        \<and> (\<forall>(s, cfg) \<in> set (servers_of (stored h)). server_enabled cfg \<noteq> None)"
  have on: "truthy_bool (server_enabled cfg) \<longleftrightarrow> server_enabled cfg \<noteq> Some False"
    if "(s, cfg) \<in> set (servers_of (stored h))" for s cfg
  proof -
    from hyp that have "server_enabled cfg \<noteq> None" by blast
    then show ?thesis by (cases "server_enabled cfg") (auto simp: truthy_bool_def)
  qed
  show "e \<in> set (list_all_tools clients a h) \<longleftrightarrow>
          (\<exists>s cfg cl ts t. (s, cfg) \<in> set (servers_of (stored h))
             \<and> (\<not> truthy_str (arg_server a) \<or> arg_server a = Some s)
             \<and> server_enabled cfg \<noteq> Some False
             \<and> clients s = Some cl \<and> listTools cl = Inr ts \<and> t \<in> set ts
             \<and> tool_enabled cfg (name t)
             \<and> e = entry_of s cfg t)"
    unfolding in_list_all_tools using hyp on by blast
qed

theorem C3_enabled_tools_listed_witness:
  "\<not> truthy_bool (arg_includeDisabled no_args)
   \<and> \<lparr>entry_server = ''echo'', entry_name = ''echo'', entry_description = Some ''echoes input'',
       entry_enabled = True, customDescription = False\<rparr>
      \<in> set (list_all_tools echo_clients no_args
            (hub_of [(''echo'', stdio_server (Some ''/bin/cat'') (Some True) None)]))
   \<and> list_all_tools echo_clients no_args
        (hub_of [(''echo'', stdio_server (Some ''/bin/cat'') (Some True)
           (Some [(''echo'', \<lparr>tc_enabled = Some False, tc_description = None\<rparr>)]))]) = []"
proof -
  let ?cfg = "stdio_server (Some ''/bin/cat'') (Some True) None"
  let ?t = "\<lparr>name = ''echo'', reported_description = Some ''echoes input''\<rparr>"
  let ?e = "\<lparr>entry_server = ''echo'', entry_name = ''echo'',
             entry_description = Some ''echoes input'',
             entry_enabled = True, customDescription = False\<rparr>"
  have plain: "\<not> truthy_bool (arg_includeDisabled no_args)"
    by (simp add: no_args_def truthy_bool_def)
  have "(''echo'', ?cfg) \<in> set (servers_of (stored (hub_of [(''echo'', ?cfg)])))
      \<and> (\<not> truthy_str (arg_server no_args) \<or> arg_server no_args = Some ''echo'')
      \<and> server_enabled ?cfg \<noteq> Some False
      \<and> echo_clients ''echo'' = Some \<lparr>listTools = Inr [?t]\<rparr>
      \<and> listTools \<lparr>listTools = Inr [?t]\<rparr> = Inr [?t] \<and> ?t \<in> set [?t]
      \<and> tool_enabled ?cfg (name ?t) \<and> ?e = entry_of ''echo'' ?cfg ?t"
    by (simp add: servers_of_def hub_of_def empty_settings_def no_args_def truthy_str_def
        stdio_server_def echo_clients_def tool_enabled_def tool_config_of_def entry_of_def
        description_override_def or_str_def)
  then have "\<exists>s cfg cl ts t. (s, cfg) \<in> set (servers_of (stored (hub_of [(''echo'', ?cfg)])))
      \<and> (\<not> truthy_str (arg_server no_args) \<or> arg_server no_args = Some s)
      \<and> server_enabled cfg \<noteq> Some False
      \<and> echo_clients s = Some cl \<and> listTools cl = Inr ts \<and> t \<in> set ts
      \<and> tool_enabled cfg (name t) \<and> ?e = entry_of s cfg t"
    by blast
  moreover have every: "\<forall>(s, cfg) \<in> set (servers_of (stored (hub_of [(''echo'', ?cfg)]))).
      server_enabled cfg \<noteq> None"
    by (auto simp: servers_of_def hub_of_def empty_settings_def stdio_server_def)
  ultimately have listed: "?e \<in> set (list_all_tools echo_clients no_args (hub_of [(''echo'', ?cfg)]))"
    using C3_enabled_tools_listed
      [of ?cfg "''echo''" no_args "hub_of [(''echo'', ?cfg)]" ?e echo_clients] plain
    by blast
  have dropped: "list_all_tools echo_clients no_args
        (hub_of [(''echo'', stdio_server (Some ''/bin/cat'') (Some True)
           (Some [(''echo'', \<lparr>tc_enabled = Some False, tc_description = None\<rparr>)]))]) = []"
    by (simp add: list_all_tools_def loadSettings_def hub_of_def servers_of_def
      empty_settings_def server_entries_def no_args_def truthy_str_def truthy_bool_def
      stdio_server_def tool_enabled_def tool_config_of_def echo_clients_def)
  from plain listed dropped show ?thesis by blast
qed

text \<open>
  Claim C4 as stated fails for an override set to the empty string: the description is
  \<^verbatim>\<open>toolConfig?.description || tool.description\<close>, and the empty string is falsy, so the
  upstream's description is reported.
\<close>

theorem C4_empty_override_counterexample:
  "executeTool echo_collaborators ''list_all_tools'' no_args
     (hub_of [(''echo'', stdio_server (Some ''/bin/cat'') (Some True)
        (Some [(''echo'', \<lparr>tc_enabled = Some True, tc_description = Some []\<rparr>)]))])
   = (Inr (Tools [\<lparr>entry_server = ''echo'', entry_name = ''echo'',
                   entry_description = Some ''echoes input'',
                   entry_enabled = True, customDescription = False\<rparr>]),
      hub_of [(''echo'', stdio_server (Some ''/bin/cat'') (Some True)
        (Some [(''echo'', \<lparr>tc_enabled = Some True, tc_description = Some []\<rparr>)]))])
   \<and> description_override (stdio_server (Some ''/bin/cat'') (Some True)
        (Some [(''echo'', \<lparr>tc_enabled = Some True, tc_description = Some []\<rparr>)])) ''echo'' = Some []"
  by (simp add: executeTool_def list_all_tools_def loadSettings_def hub_of_def servers_of_def
      empty_settings_def server_entries_def no_args_def truthy_str_def truthy_bool_def
      stdio_server_def tool_enabled_def tool_config_of_def echo_collaborators_def echo_clients_def
      entry_of_def description_override_def or_str_def)

text \<open>
  Claim C4, amended: the description in the entry of a tool \<open>t\<close> reported by an upstream
  \<open>u\<close> is the operator's override when that is set to a non-empty string, and the
  upstream-reported description otherwise (also when the override is the empty string);
  every entry of \<^verbatim>\<open>list_all_tools\<close> is the entry of a tool reported by an upstream of
  the settings and carries that description.
\<close>

theorem C4_description_override:
  "entry_description (entry_of u cfg0 t0) =
     (case description_override cfg0 (name t0) of
        None \<Rightarrow> reported_description t0
      | Some d \<Rightarrow> if d = [] then reported_description t0 else Some d)
   \<and> (e \<in> set (list_all_tools clients a h) \<longrightarrow>
     (\<exists>s cfg cl ts t. (s, cfg) \<in> set (servers_of (stored h))
        \<and> clients s = Some cl \<and> listTools cl = Inr ts \<and> t \<in> set ts
        \<and> entry_server e = s \<and> entry_name e = name t
        \<and> entry_description e =
            (case description_override cfg (name t) of
               None \<Rightarrow> reported_description t
             | Some d \<Rightarrow> if d = [] then reported_description t else Some d)))"
proof (intro conjI impI)
  show "entry_description (entry_of u cfg0 t0) =
     (case description_override cfg0 (name t0) of
        None \<Rightarrow> reported_description t0
      | Some d \<Rightarrow> if d = [] then reported_description t0 else Some d)"
    by (simp add: entry_of_def or_str_def truthy_str_def split: option.splits)
next
  assume "e \<in> set (list_all_tools clients a h)"
  then obtain s cfg cl ts t where *: "(s, cfg) \<in> set (servers_of (stored h))"
    "clients s = Some cl" "listTools cl = Inr ts" "t \<in> set ts" "e = entry_of s cfg t"
    unfolding in_list_all_tools by blast
  have "entry_server e = s \<and> entry_name e = name t \<and> entry_description e =
            (case description_override cfg (name t) of
               None \<Rightarrow> reported_description t
             | Some d \<Rightarrow> if d = [] then reported_description t else Some d)"
    unfolding *(5) by (simp add: entry_of_def or_str_def truthy_str_def split: option.splits)
  with *(1-4) show "\<exists>s cfg cl ts t. (s, cfg) \<in> set (servers_of (stored h))
        \<and> clients s = Some cl \<and> listTools cl = Inr ts \<and> t \<in> set ts
        \<and> entry_server e = s \<and> entry_name e = name t
        \<and> entry_description e =
            (case description_override cfg (name t) of
               None \<Rightarrow> reported_description t
             | Some d \<Rightarrow> if d = [] then reported_description t else Some d)"
    by blast
qed

theorem C4_description_override_witness:
  "list_all_tools echo_clients no_args
     (hub_of [(''echo'', stdio_server (Some ''/bin/cat'') (Some True)
        (Some [(''echo'', \<lparr>tc_enabled = None, tc_description = Some ''Echo service''\<rparr>)]))])
   = [\<lparr>entry_server = ''echo'', entry_name = ''echo'', entry_description = Some ''Echo service'',
       entry_enabled = True, customDescription = True\<rparr>]
   \<and> entry_description \<lparr>entry_server = ''echo'', entry_name = ''echo'',
        entry_description = Some ''Echo service'', entry_enabled = True, customDescription = True\<rparr>
      = Some ''Echo service''"
proof -
  let ?cfg = "stdio_server (Some ''/bin/cat'') (Some True)
        (Some [(''echo'', \<lparr>tc_enabled = None, tc_description = Some ''Echo service''\<rparr>)])"
  let ?e = "\<lparr>entry_server = ''echo'', entry_name = ''echo'',
        entry_description = Some ''Echo service'', entry_enabled = True, customDescription = True\<rparr>"
  have run: "list_all_tools echo_clients no_args (hub_of [(''echo'', ?cfg)]) = [?e]"
    by (simp add: list_all_tools_def loadSettings_def hub_of_def servers_of_def
      empty_settings_def server_entries_def no_args_def truthy_str_def truthy_bool_def
      stdio_server_def tool_enabled_def tool_config_of_def echo_clients_def entry_of_def
      description_override_def or_str_def)
  then have "?e \<in> set (list_all_tools echo_clients no_args (hub_of [(''echo'', ?cfg)]))"
    by simp
  with C4_description_override [of "''echo''" ?cfg
      "\<lparr>name = ''echo'', reported_description = Some ''echoes input''\<rparr>"
      ?e echo_clients no_args "hub_of [(''echo'', ?cfg)]"]
  obtain s cfg cl ts t where "(s, cfg) \<in> set (servers_of (stored (hub_of [(''echo'', ?cfg)])))"
    and "echo_clients s = Some cl" and "listTools cl = Inr ts" and "t \<in> set ts"
    and "entry_description ?e =
            (case description_override cfg (name t) of
               None \<Rightarrow> reported_description t
             | Some d \<Rightarrow> if d = [] then reported_description t else Some d)"
    by blast
  then have "entry_description ?e = Some ''Echo service''"
    by (auto simp: servers_of_def hub_of_def empty_settings_def echo_clients_def
        description_override_def tool_config_of_def stdio_server_def split: if_splits)
  with run show ?thesis by blast
qed

subsection \<open>The management server: configuration errors\<close>

lemma add_server_rejects:
  assumes "or_str (arg_type a) (Some ''stdio'') = Some ''stdio''" and "\<not> truthy_str (arg_command a)"
  shows "\<exists>e. add_server a h = (Inl e, h)
           \<and> (server_of (stored h) (js_string (arg_name a)) = None
                \<longrightarrow> e = Error ''Command is required for stdio servers'')"
  using assms by (auto simp: add_server_def Let_def loadSettings_def or_str_def truthy_str_def)

lemma validate_servers_rejects:
  "(serverName, sc) \<in> set servers \<Longrightarrow> server_type sc = Some ''stdio'' \<Longrightarrow> \<not> truthy_str (command sc)
     \<Longrightarrow> validate_servers servers \<noteq> None"
  by (induction servers) auto

lemma import_rejects:
  assumes "truthy_bool (arg_validate a)" and "(serverName, sc) \<in> set (servers_of config)"
    and "server_type sc = Some ''stdio''" and "\<not> truthy_str (command sc)"
  shows "\<exists>e. import_configuration config a h = (Inl e, h)"
proof -
  from assms(2) have "mcpServers config \<noteq> None"
    by (cases "mcpServers config") (simp_all add: servers_of_def)
  moreover from validate_servers_rejects [OF assms(2-4)]
  obtain e where "validate_servers (servers_of config) = Some e" by blast
  ultimately show ?thesis
    using assms(1) by (simp add: import_configuration_def)
qed

text \<open>
  Claim C5 as stated fails for imports: \<^verbatim>\<open>import_configuration\<close> checks servers only
  when it is called with \<^verbatim>\<open>validate\<close>. Without it, a configuration whose server has type
  \<open>stdio\<close> and no command is saved.
\<close>

theorem C5_import_unvalidated_counterexample:
  "executeTool echo_collaborators ''import_configuration''
     (no_args\<lparr>arg_config :=
        Some (empty_settings\<lparr>mcpServers := Some [(''echo'', stdio_server None (Some True) None)]\<rparr>)\<rparr>)
     (hub_of [])
   = (Inr (Success ''Configuration imported successfully''),
      \<lparr>stored = empty_settings\<lparr>mcpServers := Some [(''echo'', stdio_server None (Some True) None)]\<rparr>,
       effects = [SaveSettings
         (empty_settings\<lparr>mcpServers := Some [(''echo'', stdio_server None (Some True) None)]\<rparr>)]\<rparr>)
   \<and> server_type (stdio_server None (Some True) None) = Some ''stdio''
   \<and> command (stdio_server None (Some True) None) = None"
  by (simp add: executeTool_def no_args_def import_configuration_def truthy_bool_def hub_of_def
      saveSettings_def stdio_server_def)

text \<open>
  Claim C5, amended: adding an upstream of kind stdio (type absent, empty or \<open>stdio\<close>)
  whose command is missing or empty fails with an error that \<^verbatim>\<open>callTool\<close> hands to the
  caller, and nothing happens on that error: the state is the one before the call, so the
  settings are not saved, the server is not added and the clients are not reinitialized.
  The same holds for an import called with \<^verbatim>\<open>validate\<close> whose configuration has a server
  of type \<open>stdio\<close> without a command; an import without \<^verbatim>\<open>validate\<close> is not checked.
\<close>

theorem C5_stdio_without_command_rejected:
  "(or_str (arg_type a) (Some ''stdio'') = Some ''stdio'' \<and> \<not> truthy_str (arg_command a) \<longrightarrow>
      (\<exists>e. executeTool c ''add_server'' a h = (Inl e, h)
         \<and> (server_of (stored h) (js_string (arg_name a)) = None
              \<longrightarrow> e = Error ''Command is required for stdio servers'')
         \<and> callTool c stringify ''add_server'' a h
             = (Inr \<lparr>content = [\<lparr>content_type = ''text'',
                                   content_text = ''Error: '' @ error_message e\<rparr>]\<rparr>, h)))
   \<and> (truthy_bool (arg_validate a) \<and> arg_config a = Some config
        \<and> (serverName, sc) \<in> set (servers_of config)
        \<and> server_type sc = Some ''stdio'' \<and> \<not> truthy_str (command sc) \<longrightarrow>
      (\<exists>e. executeTool c ''import_configuration'' a h = (Inl e, h)
         \<and> callTool c stringify ''import_configuration'' a h
             = (Inr \<lparr>content = [\<lparr>content_type = ''text'',
                                   content_text = ''Error: '' @ error_message e\<rparr>]\<rparr>, h)))"
proof (intro conjI impI)
  assume "or_str (arg_type a) (Some ''stdio'') = Some ''stdio'' \<and> \<not> truthy_str (arg_command a)"
  then obtain e where "add_server a h = (Inl e, h)"
    and "server_of (stored h) (js_string (arg_name a)) = None
                \<longrightarrow> e = Error ''Command is required for stdio servers''"
    using add_server_rejects [of a h] by auto
  then show "\<exists>e. executeTool c ''add_server'' a h = (Inl e, h)
         \<and> (server_of (stored h) (js_string (arg_name a)) = None
              \<longrightarrow> e = Error ''Command is required for stdio servers'')
         \<and> callTool c stringify ''add_server'' a h
             = (Inr \<lparr>content = [\<lparr>content_type = ''text'',
                                   content_text = ''Error: '' @ error_message e\<rparr>]\<rparr>, h)"
    by (simp add: executeTool_def callTool_def try_callTool_def)
next
  assume "truthy_bool (arg_validate a) \<and> arg_config a = Some config
        \<and> (serverName, sc) \<in> set (servers_of config)
        \<and> server_type sc = Some ''stdio'' \<and> \<not> truthy_str (command sc)"
  then obtain e where "import_configuration config a h = (Inl e, h)" and "arg_config a = Some config"
    using import_rejects [of a serverName sc config h] by auto
  then show "\<exists>e. executeTool c ''import_configuration'' a h = (Inl e, h)
         \<and> callTool c stringify ''import_configuration'' a h
             = (Inr \<lparr>content = [\<lparr>content_type = ''text'',
                                   content_text = ''Error: '' @ error_message e\<rparr>]\<rparr>, h)"
    by (simp add: executeTool_def callTool_def try_callTool_def)
qed

theorem C5_stdio_without_command_rejected_witness:
  "or_str (arg_type (no_args\<lparr>arg_name := Some ''echo''\<rparr>)) (Some ''stdio'') = Some ''stdio''
   \<and> \<not> truthy_str (arg_command (no_args\<lparr>arg_name := Some ''echo''\<rparr>))
   \<and> executeTool echo_collaborators ''add_server'' (no_args\<lparr>arg_name := Some ''echo''\<rparr>) (hub_of [])
       = (Inl (Error ''Command is required for stdio servers''), hub_of [])
   \<and> callTool echo_collaborators circular_stringify ''add_server''
        (no_args\<lparr>arg_name := Some ''echo''\<rparr>) (hub_of [])
       = (Inr \<lparr>content = [\<lparr>content_type = ''text'',
                  content_text = ''Error: Command is required for stdio servers''\<rparr>]\<rparr>, hub_of [])
   \<and> truthy_bool (arg_validate (no_args\<lparr>arg_validate := Some True, arg_config :=
        Some (empty_settings\<lparr>mcpServers := Some [(''echo'', stdio_server None (Some True) None)]\<rparr>)\<rparr>))
   \<and> fst (executeTool echo_collaborators ''import_configuration''
        (no_args\<lparr>arg_validate := Some True, arg_config :=
          Some (empty_settings\<lparr>mcpServers := Some [(''echo'', stdio_server None (Some True) None)]\<rparr>)\<rparr>)
        (hub_of []))
       = Inl (Error (''Server '' @ quoted ''echo'' @ '' requires a command for stdio type''))
   \<and> snd (executeTool echo_collaborators ''import_configuration''
        (no_args\<lparr>arg_validate := Some True, arg_config :=
          Some (empty_settings\<lparr>mcpServers := Some [(''echo'', stdio_server None (Some True) None)]\<rparr>)\<rparr>)
        (hub_of [])) = hub_of []"
proof -
  let ?add = "no_args\<lparr>arg_name := Some ''echo''\<rparr>"
  let ?config = "empty_settings\<lparr>mcpServers := Some [(''echo'', stdio_server None (Some True) None)]\<rparr>"
  let ?import = "no_args\<lparr>arg_validate := Some True, arg_config := Some ?config\<rparr>"
  have kind: "or_str (arg_type ?add) (Some ''stdio'') = Some ''stdio''"
    and missing: "\<not> truthy_str (arg_command ?add)"
    and fresh: "server_of (stored (hub_of [])) (js_string (arg_name ?add)) = None"
    by (simp_all add: no_args_def or_str_def truthy_str_def server_of_def servers_of_def
        hub_of_def empty_settings_def)
  have checked: "truthy_bool (arg_validate ?import)" and given: "arg_config ?import = Some ?config"
    and listed: "(''echo'', stdio_server None (Some True) None) \<in> set (servers_of ?config)"
    and stdio: "server_type (stdio_server None (Some True) None) = Some ''stdio''"
    and bare: "\<not> truthy_str (command (stdio_server None (Some True) None))"
    by (simp_all add: no_args_def truthy_bool_def servers_of_def empty_settings_def
        stdio_server_def truthy_str_def)
  from C5_stdio_without_command_rejected
    [of ?add echo_collaborators "hub_of []" circular_stringify ?config "''echo''"
      "stdio_server None (Some True) None"]
    kind missing fresh
  have added: "executeTool echo_collaborators ''add_server'' ?add (hub_of [])
       = (Inl (Error ''Command is required for stdio servers''), hub_of [])
     \<and> callTool echo_collaborators circular_stringify ''add_server'' ?add (hub_of [])
       = (Inr \<lparr>content = [\<lparr>content_type = ''text'',
                  content_text = ''Error: Command is required for stdio servers''\<rparr>]\<rparr>, hub_of [])"
    by (auto simp: error_message_def)
  from C5_stdio_without_command_rejected
    [of ?import echo_collaborators "hub_of []" circular_stringify ?config "''echo''"
      "stdio_server None (Some True) None"]
    checked given listed stdio bare
  obtain e where rejected: "executeTool echo_collaborators ''import_configuration'' ?import (hub_of [])
      = (Inl e, hub_of [])"
    by auto
  have "fst (executeTool echo_collaborators ''import_configuration'' ?import (hub_of []))
       = Inl (Error (''Server '' @ quoted ''echo'' @ '' requires a command for stdio type''))"
    by (simp add: executeTool_def import_configuration_def no_args_def truthy_bool_def
        servers_of_def empty_settings_def stdio_server_def truthy_str_def)
  with rejected kind missing checked added show ?thesis by simp
qed

subsection \<open>The management server: tool overlay\<close>





subsection \<open>Visibility filter\<close>

text \<open>
  Claim C7 as stated fails for an item whose owner is the empty string: the filter tests
  \<^verbatim>\<open>!item.owner\<close>, so the non-admin \<open>bob\<close> is shown an item whose owner is set and is
  not \<open>bob\<close>.
\<close>

theorem C7_empty_owner_counterexample:
  "filterByOwnership [\<lparr>owner = Some ''''\<rparr>] \<lparr>username = ''bob'', isAdmin = False\<rparr>
     = [\<lparr>owner = Some ''''\<rparr>]
   \<and> owner \<lparr>owner = Some ''''\<rparr> \<noteq> None
   \<and> owner \<lparr>owner = Some ''''\<rparr> \<noteq> Some (username \<lparr>username = ''bob'', isAdmin = False\<rparr>)"
  by (simp add: filterByOwnership_def truthy_str_def)

text \<open>
  Claim C7, amended: an admin gets the whole list; a non-admin gets exactly the items whose
  owner is absent, is the empty string, or equals the user's name, so every returned item
  with a non-empty owner is the user's own.
\<close>

theorem C7_filterByOwnership_visibility:
  "(isAdmin u \<longrightarrow> filterByOwnership items u = items)
   \<and> (\<not> isAdmin u \<longrightarrow>
        filterByOwnership items u =
          filter (\<lambda>item. owner item = None \<or> owner item = Some [] \<or> owner item = Some (username u)) items)
   \<and> (\<not> isAdmin u \<longrightarrow>
        (\<forall>item \<in> set (filterByOwnership items u).
           \<forall>name. owner item = Some name \<and> name \<noteq> [] \<longrightarrow> name = username u))"
  unfolding filterByOwnership_def
  by (auto simp: truthy_str_def split: option.splits intro!: filter_cong)

theorem C7_filterByOwnership_visibility_witness:
  "\<not> isAdmin \<lparr>username = ''bob'', isAdmin = False\<rparr>
   \<and> filterByOwnership
        [\<lparr>owner = None\<rparr>, \<lparr>owner = Some ''alice''\<rparr>, \<lparr>owner = Some ''bob''\<rparr>]
        \<lparr>username = ''bob'', isAdmin = False\<rparr>
      = [\<lparr>owner = None\<rparr>, \<lparr>owner = Some ''bob''\<rparr>]
   \<and> filterByOwnership
        [\<lparr>owner = None\<rparr>, \<lparr>owner = Some ''alice''\<rparr>, \<lparr>owner = Some ''bob''\<rparr>]
        \<lparr>username = ''root'', isAdmin = True\<rparr>
      = [\<lparr>owner = None\<rparr>, \<lparr>owner = Some ''alice''\<rparr>, \<lparr>owner = Some ''bob''\<rparr>]"
  using C7_filterByOwnership_visibility
    [of "\<lparr>username = ''bob'', isAdmin = False\<rparr>"
        "[\<lparr>owner = None\<rparr>, \<lparr>owner = Some ''alice''\<rparr>, \<lparr>owner = Some ''bob''\<rparr>]"]
    C7_filterByOwnership_visibility
    [of "\<lparr>username = ''root'', isAdmin = True\<rparr>"
        "[\<lparr>owner = None\<rparr>, \<lparr>owner = Some ''alice''\<rparr>, \<lparr>owner = Some ''bob''\<rparr>]"]
  by simp

subsection \<open>Upserts into the vector index\<close>












subsection \<open>The management server: dispatch and errors\<close>

lemma executeTool_unknown:
  "tname \<notin> set tool_set \<Longrightarrow> executeTool c tname a h = (Inl (Error (''Unknown tool: '' @ tname)), h)"
  by (auto simp: executeTool_def tool_set_def delegated_tools_def)

text \<open>
  Claim C9: \<^verbatim>\<open>callTool\<close> returns for every tool name and every argument object, never
  throws, and its result is a single text block; whatever \<^verbatim>\<open>executeTool\<close> or the
  rendering of its result throws comes back as the text \<open>Error: \<close> followed by the
  message, and a name outside the tool set gives \<open>Error: Unknown tool: \<close> and the name,
  with the state untouched.
\<close>

theorem C9_callTool_total:
  "\<exists>r h'. callTool c stringify tname a h = (Inr r, h')
     \<and> (\<exists>t. content r = [\<lparr>content_type = ''text'', content_text = t\<rparr>])
     \<and> (\<forall>e. fst (executeTool c tname a h) = Inl e \<longrightarrow>
           content r = [\<lparr>content_type = ''text'', content_text = ''Error: '' @ error_message e\<rparr>])
     \<and> (\<forall>res e. fst (executeTool c tname a h) = Inr res \<and> render stringify res = Inl e \<longrightarrow>
           content r = [\<lparr>content_type = ''text'', content_text = ''Error: '' @ error_message e\<rparr>])
     \<and> (tname \<notin> set tool_set \<longrightarrow>
           content r = [\<lparr>content_type = ''text'', content_text = ''Error: Unknown tool: '' @ tname\<rparr>]
           \<and> h' = h)"
proof (cases "tname \<in> set tool_set")
  case False
  then show ?thesis
    by (simp add: callTool_def try_callTool_def executeTool_unknown error_message_def)
next
  case True
  obtain x h1 where ex: "executeTool c tname a h = (x, h1)"
    by (cases "executeTool c tname a h")
  show ?thesis
  proof (cases x)
    case (Inl e)
    with ex True show ?thesis
      by (simp add: callTool_def try_callTool_def)
  next
    case (Inr res)
    with ex True show ?thesis
      by (cases "render stringify res") (simp_all add: callTool_def try_callTool_def)
  qed
qed

theorem C9_callTool_total_witness:
  "''frobnicate'' \<notin> set tool_set
   \<and> callTool echo_collaborators circular_stringify ''frobnicate'' no_args (hub_of [])
     = (Inr \<lparr>content = [\<lparr>content_type = ''text'',
                           content_text = ''Error: Unknown tool: frobnicate''\<rparr>]\<rparr>, hub_of [])
   \<and> callTool echo_collaborators circular_stringify ''export_configuration'' no_args (hub_of [])
     = (Inr \<lparr>content = [\<lparr>content_type = ''text'',
                           content_text = ''Error: Converting circular structure to JSON''\<rparr>]\<rparr>,
        hub_of [])"
proof -
  have unknown: "''frobnicate'' \<notin> set tool_set"
    by (simp add: tool_set_def)
  have thrown: "fst (executeTool echo_collaborators ''export_configuration'' no_args (hub_of []))
                  = Inr (Configuration (redact (stored (hub_of []))))
      \<and> render circular_stringify (Configuration (redact (stored (hub_of []))))
          = Inl (Error ''Converting circular structure to JSON'')"
    by (simp add: executeTool_def export_configuration_def no_args_def truthy_bool_def
        loadSettings_def render_def circular_stringify_def)
  have same: "snd (callTool echo_collaborators circular_stringify ''export_configuration'' no_args
                (hub_of [])) = hub_of []"
    by (simp add: callTool_def try_callTool_def executeTool_def export_configuration_def
        no_args_def truthy_bool_def loadSettings_def render_def circular_stringify_def)
  from C9_callTool_total [of echo_collaborators circular_stringify "''frobnicate''" no_args "hub_of []"]
    unknown
  have first: "callTool echo_collaborators circular_stringify ''frobnicate'' no_args (hub_of [])
     = (Inr \<lparr>content = [\<lparr>content_type = ''text'',
                           content_text = ''Error: Unknown tool: frobnicate''\<rparr>]\<rparr>, hub_of [])"
    by auto
  from C9_callTool_total [of echo_collaborators circular_stringify "''export_configuration''"
      no_args "hub_of []"] thrown same
  have second: "callTool echo_collaborators circular_stringify ''export_configuration'' no_args (hub_of [])
     = (Inr \<lparr>content = [\<lparr>content_type = ''text'',
                           content_text = ''Error: Converting circular structure to JSON''\<rparr>]\<rparr>,
        hub_of [])"
    by (auto simp: error_message_def)
  from unknown first second show ?thesis by blast
qed

subsection \<open>The management server: exporting the configuration\<close>

lemma redact_env_same: "same_env e1 e2 \<Longrightarrow> redact_env e1 = redact_env e2"
  unfolding same_env_def redact_env_def
  by (induction e1 e2 rule: list_all2_induct) auto

lemma redact_server_same:
  assumes "same_server c1 c2"
  shows "redact_server c1 = redact_server c2"
proof (cases "env c1")
  case None
  with assms have "env c2 = None" by (cases "env c2") (simp_all add: same_server_def)
  with None assms show ?thesis
    by (cases c1; cases c2) (simp add: redact_server_def same_server_def)
next
  case (Some e1)
  with assms obtain e2 where e2: "env c2 = Some e2" and "same_env e1 e2"
    by (cases "env c2") (simp_all add: same_server_def)
  then have "redact_env e1 = redact_env e2" by (simp add: redact_env_same)
  with Some e2 assms show ?thesis
    by (cases c1; cases c2) (simp add: redact_server_def same_server_def)
qed

lemma redact_servers_same:
  "list_all2 (\<lambda>(n1, c1) (n2, c2). n1 = n2 \<and> same_server c1 c2) d1 d2 \<Longrightarrow>
     map (\<lambda>(serverName, cfg). (serverName, redact_server cfg)) d1
       = map (\<lambda>(serverName, cfg). (serverName, redact_server cfg)) d2"
  by (induction d1 d2 rule: list_all2_induct) (auto simp: redact_server_same)

lemma redact_smart_routing_same:
  "rel_option same_smart_routing r1 r2 \<Longrightarrow> redact_smart_routing r1 = redact_smart_routing r2"
proof (cases r1; cases r2)
  fix a b assume "r1 = Some a" "r2 = Some b" "rel_option same_smart_routing r1 r2"
  then show ?thesis
    by (cases a; cases b) (auto simp: same_smart_routing_def redact_smart_routing_def)
qed (simp_all add: redact_smart_routing_def)

lemma redact_same: "same_but_secrets s1 s2 \<Longrightarrow> redact s1 = redact s2"
proof -
  assume same: "same_but_secrets s1 s2"
  then have sr: "redact_smart_routing (smartRouting s1) = redact_smart_routing (smartRouting s2)"
    by (simp add: same_but_secrets_def redact_smart_routing_same)
  from same have "rel_option (list_all2 (\<lambda>(n1, c1) (n2, c2). n1 = n2 \<and> same_server c1 c2))
           (mcpServers s1) (mcpServers s2)"
    by (simp add: same_but_secrets_def)
  then have servers: "map_option (map (\<lambda>(serverName, cfg). (serverName, redact_server cfg))) (mcpServers s1)
      = map_option (map (\<lambda>(serverName, cfg). (serverName, redact_server cfg))) (mcpServers s2)"
    by (cases "mcpServers s1"; cases "mcpServers s2") (simp_all add: redact_servers_same)
  from same have "groups s1 = groups s2" "settings_rest s1 = settings_rest s2"
    by (simp_all add: same_but_secrets_def)
  with sr servers show ?thesis
    by (cases s1; cases s2) (simp add: redact_def)
qed

lemma redact_env_sensitive: "(k, v) \<in> set (redact_env e) \<Longrightarrow> sensitive k \<Longrightarrow> v = REDACTED"
  by (auto simp: redact_env_def)

lemma redact_env_keeps: "(k, v) \<in> set e \<Longrightarrow> sensitive k \<Longrightarrow> (k, REDACTED) \<in> set (redact_env e)"
  by (force simp: redact_env_def)

lemma redact_servers_sensitive:
  assumes "(s, cfg) \<in> set (servers_of (redact st))" and "env cfg = Some e" and "(k, v) \<in> set e"
    and "sensitive k"
  shows "v = REDACTED"
proof -
  from assms(1) obtain cfg0 where "cfg = redact_server cfg0"
    by (cases "mcpServers st") (auto simp: servers_of_def redact_def)
  with assms(2-4) show ?thesis
    by (cases "env cfg0") (auto simp: redact_server_def dest: redact_env_sensitive)
qed

lemma redact_servers_keeps:
  assumes "(s, cfg) \<in> set (servers_of st)" and "env cfg = Some e" and "(k, v) \<in> set e"
    and "sensitive k"
  shows "\<exists>cfg' e'. (s, cfg') \<in> set (servers_of (redact st)) \<and> env cfg' = Some e'
           \<and> (k, REDACTED) \<in> set e'"
proof -
  from assms(1) have "(s, redact_server cfg) \<in> set (servers_of (redact st))"
    by (cases "mcpServers st") (auto simp: servers_of_def redact_def)
  moreover have "env (redact_server cfg) = Some (redact_env e)"
    using assms(2) by (simp add: redact_server_def)
  moreover have "(k, REDACTED) \<in> set (redact_env e)"
    using assms(3,4) by (rule redact_env_keeps)
  ultimately show ?thesis by blast
qed

text \<open>
  Claim C10 as stated fails for an API key that is the empty string: the key is replaced
  only when it is truthy. The export of settings whose \<^verbatim>\<open>openaiApiKey\<close> is empty shows
  the empty key, not the placeholder; the settings that differ from them in the value of
  that key alone export the placeholder, so the two exports differ.
\<close>

theorem C10_empty_api_key_counterexample:
  "executeTool echo_collaborators ''export_configuration'' no_args
     \<lparr>stored = empty_settings\<lparr>smartRouting :=
                 Some \<lparr>openaiApiKey = Some [], smart_routing_rest = []\<rparr>\<rparr>, effects = []\<rparr>
   = (Inr (Configuration (empty_settings\<lparr>smartRouting :=
                 Some \<lparr>openaiApiKey = Some [], smart_routing_rest = []\<rparr>\<rparr>)),
      \<lparr>stored = empty_settings\<lparr>smartRouting :=
                 Some \<lparr>openaiApiKey = Some [], smart_routing_rest = []\<rparr>\<rparr>, effects = []\<rparr>)
   \<and> executeTool echo_collaborators ''export_configuration'' no_args
     \<lparr>stored = empty_settings\<lparr>smartRouting :=
                 Some \<lparr>openaiApiKey = Some ''sk-live'', smart_routing_rest = []\<rparr>\<rparr>, effects = []\<rparr>
   = (Inr (Configuration (empty_settings\<lparr>smartRouting :=
                 Some \<lparr>openaiApiKey = Some ''***REDACTED***'', smart_routing_rest = []\<rparr>\<rparr>)),
      \<lparr>stored = empty_settings\<lparr>smartRouting :=
                 Some \<lparr>openaiApiKey = Some ''sk-live'', smart_routing_rest = []\<rparr>\<rparr>, effects = []\<rparr>)
   \<and> Some [] \<noteq> Some REDACTED"
  by (simp add: executeTool_def export_configuration_def loadSettings_def no_args_def
      truthy_bool_def redact_def redact_smart_routing_def truthy_str_def empty_settings_def
      REDACTED_def Let_def)

text \<open>
  Claim C10, amended: \<^verbatim>\<open>export_configuration\<close> called without \<^verbatim>\<open>includeSecrets\<close>
  returns, and leaves the state as it is, a configuration in which a non-empty
  \<^verbatim>\<open>smartRouting.openaiApiKey\<close> and every server environment variable whose lower-cased
  name contains \<open>key\<close>, \<open>secret\<close> or \<open>password\<close> is the placeholder; every such
  variable of the settings is in the export; and two settings states that differ only in
  the values of those variables and of a non-empty API key yield the same export.
\<close>

theorem C10_export_redacts_secrets:
  "\<not> truthy_bool (arg_includeSecrets a) \<longrightarrow>
     (\<exists>r. executeTool c ''export_configuration'' a h = (Inr (Configuration r), h)
        \<and> (\<forall>sr. smartRouting (stored h) = Some sr \<and> truthy_str (openaiApiKey sr) \<longrightarrow>
              (\<exists>sr'. smartRouting r = Some sr' \<and> openaiApiKey sr' = Some REDACTED))
        \<and> (\<forall>s cfg e k v. (s, cfg) \<in> set (servers_of r) \<and> env cfg = Some e \<and> (k, v) \<in> set e
              \<and> sensitive k \<longrightarrow> v = REDACTED)
        \<and> (\<forall>s cfg e k v. (s, cfg) \<in> set (servers_of (stored h)) \<and> env cfg = Some e
              \<and> (k, v) \<in> set e \<and> sensitive k \<longrightarrow>
              (\<exists>cfg' e'. (s, cfg') \<in> set (servers_of r) \<and> env cfg' = Some e'
                 \<and> (k, REDACTED) \<in> set e'))
        \<and> (\<forall>h2. same_but_secrets (stored h) (stored h2) \<longrightarrow>
              fst (executeTool c ''export_configuration'' a h2) = Inr (Configuration r)))"
proof
  assume plain: "\<not> truthy_bool (arg_includeSecrets a)"
  then have run: "executeTool c ''export_configuration'' a h' = (Inr (Configuration (redact (stored h'))), h')"
    for h'
    by (simp add: executeTool_def export_configuration_def loadSettings_def)
  have key: "\<forall>sr. smartRouting (stored h) = Some sr \<and> truthy_str (openaiApiKey sr) \<longrightarrow>
              (\<exists>sr'. smartRouting (redact (stored h)) = Some sr' \<and> openaiApiKey sr' = Some REDACTED)"
    by (simp add: redact_def redact_smart_routing_def)
  have envs: "\<forall>s cfg e k v. (s, cfg) \<in> set (servers_of (redact (stored h))) \<and> env cfg = Some e
              \<and> (k, v) \<in> set e \<and> sensitive k \<longrightarrow> v = REDACTED"
    using redact_servers_sensitive by blast
  have kept: "\<forall>s cfg e k v. (s, cfg) \<in> set (servers_of (stored h)) \<and> env cfg = Some e
              \<and> (k, v) \<in> set e \<and> sensitive k \<longrightarrow>
              (\<exists>cfg' e'. (s, cfg') \<in> set (servers_of (redact (stored h))) \<and> env cfg' = Some e'
                 \<and> (k, REDACTED) \<in> set e')"
    using redact_servers_keeps by blast
  have indep: "\<forall>h2. same_but_secrets (stored h) (stored h2) \<longrightarrow>
              fst (executeTool c ''export_configuration'' a h2) = Inr (Configuration (redact (stored h)))"
    by (simp add: run redact_same)
  show "\<exists>r. executeTool c ''export_configuration'' a h = (Inr (Configuration r), h)
        \<and> (\<forall>sr. smartRouting (stored h) = Some sr \<and> truthy_str (openaiApiKey sr) \<longrightarrow>
              (\<exists>sr'. smartRouting r = Some sr' \<and> openaiApiKey sr' = Some REDACTED))
        \<and> (\<forall>s cfg e k v. (s, cfg) \<in> set (servers_of r) \<and> env cfg = Some e \<and> (k, v) \<in> set e
              \<and> sensitive k \<longrightarrow> v = REDACTED)
        \<and> (\<forall>s cfg e k v. (s, cfg) \<in> set (servers_of (stored h)) \<and> env cfg = Some e
              \<and> (k, v) \<in> set e \<and> sensitive k \<longrightarrow>
              (\<exists>cfg' e'. (s, cfg') \<in> set (servers_of r) \<and> env cfg' = Some e'
                 \<and> (k, REDACTED) \<in> set e'))
        \<and> (\<forall>h2. same_but_secrets (stored h) (stored h2) \<longrightarrow>
              fst (executeTool c ''export_configuration'' a h2) = Inr (Configuration r))"
    using run [of h] key envs kept indep by blast
qed

theorem C10_export_redacts_secrets_witness:
  "\<not> truthy_bool (arg_includeSecrets no_args)
   \<and> sensitive ''OPENAI_API_KEY'' \<and> sensitive ''Db_PassWord'' \<and> \<not> sensitive ''PATH''
   \<and> fst (executeTool echo_collaborators ''export_configuration'' no_args
        \<lparr>stored = \<lparr>mcpServers = Some [(''echo'',
                     (stdio_server (Some ''/bin/cat'') (Some True) None)
                       \<lparr>env := Some [(''OPENAI_API_KEY'', ''sk-1''), (''PATH'', ''/bin''),
                                     (''Db_PassWord'', ''hunter2'')]\<rparr>)],
                    smartRouting = Some \<lparr>openaiApiKey = Some ''sk-live'', smart_routing_rest = []\<rparr>,
                    groups = None, settings_rest = []\<rparr>,
          effects = []\<rparr>)
     = Inr (Configuration
        \<lparr>mcpServers = Some [(''echo'',
                     (stdio_server (Some ''/bin/cat'') (Some True) None)
                       \<lparr>env := Some [(''OPENAI_API_KEY'', ''***REDACTED***''), (''PATH'', ''/bin''),
                                     (''Db_PassWord'', ''***REDACTED***'')]\<rparr>)],
         smartRouting = Some \<lparr>openaiApiKey = Some ''***REDACTED***'', smart_routing_rest = []\<rparr>,
         groups = None, settings_rest = []\<rparr>)"
proof -
  let ?h = "\<lparr>stored = \<lparr>mcpServers = Some [(''echo'',
                     (stdio_server (Some ''/bin/cat'') (Some True) None)
                       \<lparr>env := Some [(''OPENAI_API_KEY'', ''sk-1''), (''PATH'', ''/bin''),
                                     (''Db_PassWord'', ''hunter2'')]\<rparr>)],
                    smartRouting = Some \<lparr>openaiApiKey = Some ''sk-live'', smart_routing_rest = []\<rparr>,
                    groups = None, settings_rest = []\<rparr>,
          effects = []\<rparr>"
  have plain: "\<not> truthy_bool (arg_includeSecrets no_args)"
    by (simp add: no_args_def truthy_bool_def)
  have names: "sensitive ''OPENAI_API_KEY''" "sensitive ''Db_PassWord''" "\<not> sensitive ''PATH''"
    by (simp_all add: sensitive_def toLowerCase_def lower_char_def)
  from C10_export_redacts_secrets [of no_args echo_collaborators ?h] plain
  obtain r where run: "executeTool echo_collaborators ''export_configuration'' no_args ?h
      = (Inr (Configuration r), ?h)"
    by blast
  have "executeTool echo_collaborators ''export_configuration'' no_args ?h
      = (Inr (Configuration (redact (stored ?h))), ?h)"
    using plain by (simp add: executeTool_def export_configuration_def loadSettings_def)
  with run have r: "r = redact (stored ?h)" by simp
  have "redact (stored ?h) =
        \<lparr>mcpServers = Some [(''echo'',
                     (stdio_server (Some ''/bin/cat'') (Some True) None)
                       \<lparr>env := Some [(''OPENAI_API_KEY'', ''***REDACTED***''), (''PATH'', ''/bin''),
                                     (''Db_PassWord'', ''***REDACTED***'')]\<rparr>)],
         smartRouting = Some \<lparr>openaiApiKey = Some ''***REDACTED***'', smart_routing_rest = []\<rparr>,
         groups = None, settings_rest = []\<rparr>"
    using names
    by (simp add: redact_def redact_smart_routing_def truthy_str_def redact_server_def
        redact_env_def stdio_server_def REDACTED_def)
  with run r plain names show ?thesis by simp
qed

end
